theory Spec2Isabelle
  imports Main
begin

section \<open>Values exchanged with the client and with the remote service\<close>

text \<open>
  The program is \<^verbatim>\<open>demo-project/app.py\<close>: a Flask application that forwards chat
  messages and file uploads to a hosted assistant service and relays the outcome of a
  run as a server-sent-event stream.

  Python strings are modelled as \<^typ>\<open>string\<close>, one \<^typ>\<open>char\<close> per code point
  (code points 0 to 255). JSON values are the values \<^verbatim>\<open>request.json\<close> can produce
  and \<^verbatim>\<open>json.dumps\<close> can print; a JSON object is the Python dict in insertion
  order. Numbers are the integers (Python's unbounded \<^verbatim>\<open>int\<close>).
\<close>

datatype json =
    JNull
  | JBool bool
  | JNum int
  | JStr string
  | JArr "json list"
  | JObj "(string \<times> json) list"

text \<open>Python truthiness, as \<^verbatim>\<open>if not thread_id\<close> tests it.\<close>

fun truthy :: "json \<Rightarrow> bool" where
  "truthy JNull = False"
| "truthy (JBool b) = b"
| "truthy (JNum n) = (n \<noteq> 0)"
| "truthy (JStr s) = (s \<noteq> [])"
| "truthy (JArr xs) = (xs \<noteq> [])"
| "truthy (JObj kvs) = (kvs \<noteq> [])"

text \<open>
  A Python exception: its class name and \<^verbatim>\<open>str(e)\<close>. A call that can raise returns
  \<open>exn + 'a\<close>, with \<open>Inl\<close> for the exception.
\<close>

datatype exn = Exn (exn_class: string) (exn_str: string)

text \<open>The \<^verbatim>\<open>AttributeError\<close> of reading an attribute an object does not have.\<close>

definition AttributeError :: "string \<Rightarrow> string \<Rightarrow> exn" where
  "AttributeError ty attr =
     Exn ''AttributeError''
       ([CHR 0x27] @ ty @ [CHR 0x27] @ '' object has no attribute '' @ [CHR 0x27] @ attr @ [CHR 0x27])"

definition IndexError :: exn where
  "IndexError = Exn ''IndexError'' ''list index out of range''"

text \<open>\<^verbatim>\<open>data.get(key, default)\<close>: only a dict has the method.\<close>

fun type_name :: "json \<Rightarrow> string" where
  "type_name JNull = ''NoneType''"
| "type_name (JBool b) = ''bool''"
| "type_name (JNum n) = ''int''"
| "type_name (JStr s) = ''str''"
| "type_name (JArr xs) = ''list''"
| "type_name (JObj kvs) = ''dict''"

fun py_get :: "json \<Rightarrow> string \<Rightarrow> json \<Rightarrow> exn + json" where
  "py_get (JObj kvs) key dflt = Inr (case map_of kvs key of None \<Rightarrow> dflt | Some v \<Rightarrow> v)"
| "py_get d key dflt = Inl (AttributeError (type_name d) ''get'')"

subsection \<open>\<^verbatim>\<open>json.dumps\<close> with its default arguments\<close>

definition hex_digit :: "nat \<Rightarrow> char" where
  "hex_digit n = ''0123456789abcdef'' ! (n mod 16)"

text \<open>
  \<^verbatim>\<open>ensure_ascii=True\<close>: the printable ASCII characters stand for themselves, except
  the double quote and the backslash; everything else is escaped.
\<close>

definition escape_char :: "char \<Rightarrow> string" where
  "escape_char c =
     (let n = (of_char c :: nat) in
      if n = 0x22 then [CHR 0x5C, CHR 0x22]
      else if n = 0x5C then [CHR 0x5C, CHR 0x5C]
      else if 0x20 \<le> n \<and> n \<le> 0x7E then [c]
      else if n = 0x0A then [CHR 0x5C, CHR ''n'']
      else if n = 0x0D then [CHR 0x5C, CHR ''r'']
      else if n = 0x09 then [CHR 0x5C, CHR ''t'']
      else if n = 0x08 then [CHR 0x5C, CHR ''b'']
      else if n = 0x0C then [CHR 0x5C, CHR ''f'']
      else [CHR 0x5C, CHR ''u'', CHR ''0'', CHR ''0'', hex_digit (n div 16), hex_digit n])"

definition encode_str :: "string \<Rightarrow> string" where
  "encode_str s = [CHR 0x22] @ concat (map escape_char s) @ [CHR 0x22]"

fun digits :: "nat \<Rightarrow> string" where
  "digits n =
     (if n < 10 then [''0123456789'' ! n]
      else digits (n div 10) @ [''0123456789'' ! (n mod 10)])"

definition int_repr :: "int \<Rightarrow> string" where
  "int_repr n = (if n < 0 then ''-'' @ digits (nat (- n)) else digits (nat n))"

fun join :: "string \<Rightarrow> string list \<Rightarrow> string" where
  "join sep [] = []"
| "join sep [x] = x"
| "join sep (x # y # ys) = x @ sep @ join sep (y # ys)"

fun json_dumps :: "json \<Rightarrow> string" where
  "json_dumps JNull = ''null''"
| "json_dumps (JBool b) = (if b then ''true'' else ''false'')"
| "json_dumps (JNum n) = int_repr n"
| "json_dumps (JStr s) = encode_str s"
| "json_dumps (JArr xs) = ''['' @ join '', '' (map json_dumps xs) @ '']''"
| "json_dumps (JObj kvs) =
     ''{'' @ join '', '' (map (\<lambda>kv. encode_str (fst kv) @ '': '' @ json_dumps (snd kv)) kvs) @ ''}''"

text \<open>The frame the generator yields: \<^verbatim>\<open>f"data: {json.dumps(d)}\n\n"\<close>.\<close>

definition sse_frame :: "json \<Rightarrow> string" where
  "sse_frame d = ''data: '' @ json_dumps d @ [CHR 0x0A, CHR 0x0A]"

declare digits.simps [simp del]

section \<open>The remote service and the trace of effects\<close>

text \<open>
  A message of a thread as the remote service lists it: its role and its content blocks.
  Only a text block has the attribute \<^verbatim>\<open>.text\<close>.
\<close>

datatype content_block = TextBlock string | ImageFileBlock string

record message =
  role :: string
  content :: "content_block list"

text \<open>The fixed keyword arguments of \<^verbatim>\<open>client.beta.assistants.create\<close>.\<close>

record assistant_params =
  ap_name :: string
  ap_description :: string
  ap_instructions :: string
  ap_model :: string
  ap_tools :: "json list"
  ap_temperature_tenths :: nat
  ap_response_format :: json

text \<open>
  Everything the program does to the outside, in the order it does it: the remote
  calls with their arguments, \<^verbatim>\<open>time.sleep\<close> (in milliseconds), \<^verbatim>\<open>print\<close>, and the
  frames the generator yields.
\<close>

datatype event =
    AssistantsRetrieve string
  | AssistantsCreate assistant_params
  | AssistantsUpdate string "string list"
  | ThreadsCreate
  | MessagesCreate json string json
  | MessagesList json
  | RunsCreate json string
  | RunsRetrieve json string
  | FilesCreate string string
  | Sleep nat
  | Print string
  | Yield string

text \<open>
  The remote service is a black box: each operation either raises or returns what the
  program reads from its result. Within one request every operation but
  \<^verbatim>\<open>runs.retrieve\<close> is called at most once; \<^verbatim>\<open>runs.retrieve\<close> is called once per
  loop iteration, and its answer may change from one call to the next, so it takes the
  number of the poll (from 0).
\<close>

record remote =
  assistants_retrieve :: "string \<Rightarrow> exn + unit"
  assistants_create :: "assistant_params \<Rightarrow> exn + string"
  assistants_update :: "string \<Rightarrow> string list \<Rightarrow> exn + unit"
  threads_create :: "exn + string"
  messages_create :: "json \<Rightarrow> string \<Rightarrow> json \<Rightarrow> exn + unit"
  messages_list :: "json \<Rightarrow> exn + message list"
  runs_create :: "json \<Rightarrow> string \<Rightarrow> exn + string"
  runs_retrieve :: "json \<Rightarrow> string \<Rightarrow> nat \<Rightarrow> exn + string"
  files_create :: "string \<Rightarrow> string \<Rightarrow> exn + string"

section \<open>The polling loop of \<^verbatim>\<open>generate\<close>\<close>

text \<open>How a generator ends: it returns (the stream closes) or an exception leaves it.\<close>

datatype ending = Closed | Raised exn

text \<open>
  The branch \<^verbatim>\<open>run_status.status == "completed"\<close>: list the messages, take
  \<^verbatim>\<open>messages.data[0]\<close>, and yield its \<^verbatim>\<open>content[0].text.value\<close> when its role is
  \<^verbatim>\<open>"assistant"\<close>; then \<^verbatim>\<open>break\<close>.
\<close>

definition on_completed :: "remote \<Rightarrow> json \<Rightarrow> event list \<Rightarrow> event list \<times> ending" where
  "on_completed rem thread_id log =
     (let log1 = log @ [MessagesList thread_id] in
      case messages_list rem thread_id of
        Inl e \<Rightarrow> (log1, Raised e)
      | Inr data \<Rightarrow>
          (case data of
             [] \<Rightarrow> (log1, Raised IndexError)
           | latest_message # _ \<Rightarrow>
               if role latest_message = ''assistant'' then
                 (case content latest_message of
                    [] \<Rightarrow> (log1, Raised IndexError)
                  | TextBlock v # _ \<Rightarrow>
                      (log1 @ [Yield (sse_frame (JObj [(''content'', JStr v),
                                                       (''thread_id'', thread_id)]))], Closed)
                  | ImageFileBlock _ # _ \<Rightarrow>
                      (log1, Raised (AttributeError ''ImageFileContentBlock'' ''text'')))
               else (log1, Closed)))"

text \<open>The branch \<^verbatim>\<open>run_status.status == "failed"\<close>.\<close>

definition on_failed :: "json \<Rightarrow> event list \<Rightarrow> event list \<times> ending" where
  "on_failed thread_id log =
     (log @ [Yield (sse_frame (JObj [(''error'', JStr ''Assistant run failed''),
                                     (''thread_id'', thread_id)]))], Closed)"

text \<open>
  One iteration of \<^verbatim>\<open>while True\<close>: \<open>Some\<close> when the iteration leaves the loop
  (\<^verbatim>\<open>break\<close> or an exception), \<open>None\<close> when it reaches \<^verbatim>\<open>time.sleep(0.5)\<close> and the
  loop goes round again.
\<close>

definition poll_once ::
  "remote \<Rightarrow> json \<Rightarrow> string \<Rightarrow> nat \<Rightarrow> event list \<Rightarrow> event list \<times> ending option" where
  "poll_once rem thread_id run_id i log =
     (let log1 = log @ [RunsRetrieve thread_id run_id] in
      case runs_retrieve rem thread_id run_id i of
        Inl e \<Rightarrow> (log1, Some (Raised e))
      | Inr status \<Rightarrow>
          if status = ''completed'' then
            (case on_completed rem thread_id log1 of (log2, e) \<Rightarrow> (log2, Some e))
          else if status = ''failed'' then
            (case on_failed thread_id log1 of (log2, e) \<Rightarrow> (log2, Some e))
          else (log1 @ [Sleep 500], None))"

text \<open>
  The loop has no bound, so \<open>generate\<close> is a partial function: \<open>None\<close> is the run that
  never leaves the loop. \<open>i\<close> is the number of polls made so far.
\<close>

partial_function (option) generate ::
  "remote \<Rightarrow> json \<Rightarrow> string \<Rightarrow> nat \<Rightarrow> event list \<Rightarrow> (event list \<times> ending) option" where
  "generate rem thread_id run_id i log =
     (case poll_once rem thread_id run_id i log of
        (log', Some e) \<Rightarrow> Some (log', e)
      | (log', None) \<Rightarrow> generate rem thread_id run_id (Suc i) log')"

text \<open>
  What a client has seen after at most \<open>n\<close> iterations of the same loop: the trace so
  far, and the ending if the loop has been left.
\<close>

fun generate_upto ::
  "nat \<Rightarrow> remote \<Rightarrow> json \<Rightarrow> string \<Rightarrow> nat \<Rightarrow> event list \<Rightarrow> event list \<times> ending option" where
  "generate_upto 0 rem thread_id run_id i log = (log, None)"
| "generate_upto (Suc n) rem thread_id run_id i log =
     (case poll_once rem thread_id run_id i log of
        (log', Some e) \<Rightarrow> (log', Some e)
      | (log', None) \<Rightarrow> generate_upto n rem thread_id run_id (Suc i) log')"

definition frames :: "event list \<Rightarrow> string list" where
  "frames log = concat (map (\<lambda>ev. case ev of Yield f \<Rightarrow> [f] | _ \<Rightarrow> []) log)"

text \<open>
  A poll is pending when \<^verbatim>\<open>runs.retrieve\<close> returns a status other than the two
  strings the loop tests for.
\<close>

definition pending :: "remote \<Rightarrow> json \<Rightarrow> string \<Rightarrow> nat \<Rightarrow> bool" where
  "pending rem thread_id run_id i =
     (case runs_retrieve rem thread_id run_id i of
        Inl e \<Rightarrow> False
      | Inr status \<Rightarrow> status \<noteq> ''completed'' \<and> status \<noteq> ''failed'')"

text \<open>The trace of \<open>n\<close> pending iterations: a poll and a sleep of 500 ms, \<open>n\<close> times.\<close>

definition waits :: "json \<Rightarrow> string \<Rightarrow> nat \<Rightarrow> event list" where
  "waits thread_id run_id n = concat (replicate n [RunsRetrieve thread_id run_id, Sleep 500])"

section \<open>The endpoints\<close>

text \<open>
  What a view function returns: a dict with its status code (Flask sends it as JSON;
  a dict returned alone has status 200), or the streaming response, which holds the
  generator and so the two variables \<open>generate\<close> closes over, \<^verbatim>\<open>thread_id\<close> and
  \<^verbatim>\<open>run.id\<close>.
\<close>

datatype response =
    Json nat json
  | EventStream json string

subsection \<open>\<^verbatim>\<open>POST /chat\<close>\<close>

text \<open>
  The first statement of \<^verbatim>\<open>try:\<close> in \<open>chat\<close>: \<^verbatim>\<open>if not thread_id:\<close> creates a
  thread and takes its id. The result is the value of \<^verbatim>\<open>thread_id\<close> afterwards.
\<close>

definition ensure_thread :: "remote \<Rightarrow> json \<Rightarrow> event list \<Rightarrow> (exn + json) \<times> event list" where
  "ensure_thread rem thread_id log =
     (if \<not> truthy thread_id then
        (case threads_create rem of
           Inl e \<Rightarrow> (Inl e, log @ [ThreadsCreate])
         | Inr new_id \<Rightarrow> (Inr (JStr new_id), log @ [ThreadsCreate]))
      else (Inr thread_id, log))"

text \<open>The body of \<^verbatim>\<open>try:\<close> in \<open>chat\<close>.\<close>

definition chat_try ::
  "remote \<Rightarrow> string \<Rightarrow> json \<Rightarrow> json \<Rightarrow> event list \<Rightarrow> (exn + response) \<times> event list" where
  "chat_try rem ASSISTANT_ID message thread_id0 log =
     (case ensure_thread rem thread_id0 log of
        (Inl e, log1) \<Rightarrow> (Inl e, log1)
      | (Inr thread_id, log1) \<Rightarrow>
          (let log2 = log1 @ [MessagesCreate thread_id ''user'' message] in
           case messages_create rem thread_id ''user'' message of
             Inl e \<Rightarrow> (Inl e, log2)
           | Inr _ \<Rightarrow>
               (let log3 = log2 @ [RunsCreate thread_id ASSISTANT_ID] in
                case runs_create rem thread_id ASSISTANT_ID of
                  Inl e \<Rightarrow> (Inl e, log3)
                | Inr run_id \<Rightarrow> (Inr (EventStream thread_id run_id), log3))))"

text \<open>
  \<open>chat\<close> itself. \<open>request_json\<close> is what evaluating \<^verbatim>\<open>request.json\<close> gives: the
  parsed body, or the exception it raises. The first three statements stand before
  \<^verbatim>\<open>try:\<close>, so an exception there leaves the function (\<open>Inl\<close>); one raised
  inside is turned into the dict \<^verbatim>\<open>{"error": str(e)}\<close> with status 500.
\<close>

definition chat ::
  "remote \<Rightarrow> string \<Rightarrow> exn + json \<Rightarrow> event list \<Rightarrow> (exn + response) \<times> event list" where
  "chat rem ASSISTANT_ID request_json log =
     (case request_json of
        Inl e \<Rightarrow> (Inl e, log)
      | Inr data \<Rightarrow>
          (case py_get data ''message'' (JStr []) of
             Inl e \<Rightarrow> (Inl e, log)
           | Inr message \<Rightarrow>
               (case py_get data ''thread_id'' JNull of
                  Inl e \<Rightarrow> (Inl e, log)
                | Inr thread_id \<Rightarrow>
                    (case chat_try rem ASSISTANT_ID message thread_id log of
                       (Inl e, log') \<Rightarrow> (Inr (Json 500 (JObj [(''error'', JStr (exn_str e))])), log')
                     | (Inr resp, log') \<Rightarrow> (Inr resp, log')))))"

subsection \<open>\<^verbatim>\<open>POST /upload\<close>\<close>

text \<open>The body of \<^verbatim>\<open>try:\<close> in \<open>upload_file\<close>; \<open>file_stream\<close> is \<^verbatim>\<open>file.stream\<close>.\<close>

definition upload_try ::
  "remote \<Rightarrow> string \<Rightarrow> string \<Rightarrow> event list \<Rightarrow> (exn + response) \<times> event list" where
  "upload_try rem ASSISTANT_ID file_stream log =
     (let log1 = log @ [FilesCreate file_stream ''assistants''] in
      case files_create rem file_stream ''assistants'' of
        Inl e \<Rightarrow> (Inl e, log1)
      | Inr file_id \<Rightarrow>
          (let log2 = log1 @ [AssistantsUpdate ASSISTANT_ID [file_id]] in
           case assistants_update rem ASSISTANT_ID [file_id] of
             Inl e \<Rightarrow> (Inl e, log2)
           | Inr _ \<Rightarrow> (Inr (Json 200 (JObj [(''file_id'', JStr file_id)])), log2)))"

text \<open>
  \<open>request_files\<close> is \<^verbatim>\<open>request.files\<close>: the multipart fields that carry a file, in
  order, each with the bytes of its stream; \<^verbatim>\<open>request.files["file"]\<close> is the first
  field of that name.
\<close>

definition upload_file ::
  "remote \<Rightarrow> string \<Rightarrow> (string \<times> string) list \<Rightarrow> event list \<Rightarrow> response \<times> event list" where
  "upload_file rem ASSISTANT_ID request_files log =
     (case map_of request_files ''file'' of
        None \<Rightarrow> (Json 400 (JObj [(''error'', JStr ''No file provided'')]), log)
      | Some file_stream \<Rightarrow>
          (case upload_try rem ASSISTANT_ID file_stream log of
             (Inl e, log') \<Rightarrow> (Json 500 (JObj [(''error'', JStr (exn_str e))]), log')
           | (Inr resp, log') \<Rightarrow> (resp, log')))"

section \<open>Provisioning the assistant at startup\<close>

definition chat_assistant :: assistant_params where
  "chat_assistant =
     \<lparr>ap_name = ''Chat Assistant'',
      ap_description = ''A helpful chat assistant that can write code and process files'',
      ap_instructions =
        ''You are a helpful and knowledgeable assistant that excels at:'' @ [CHR 0x0A] @
        ''            1. Providing clear and concise responses'' @ [CHR 0x0A] @
        ''            2. Writing and explaining code'' @ [CHR 0x0A] @
        ''            3. Analyzing and processing files'' @ [CHR 0x0A] @
        ''            4. Maintaining context throughout conversations'' @ [CHR 0x0A] @
        ''            Always format code blocks properly and explain your reasoning.'',
      ap_model = ''gpt-4-turbo-preview'',
      ap_tools = [JObj [(''type'', JStr ''code_interpreter'')]],
      ap_temperature_tenths = 7,
      ap_response_format = JObj [(''type'', JStr ''text'')]\<rparr>"

text \<open>The block under \<^verbatim>\<open>if not assistant_id:\<close>.\<close>

definition create_assistant :: "remote \<Rightarrow> event list \<Rightarrow> (exn + string) \<times> event list" where
  "create_assistant rem log =
     (let log1 = log @ [AssistantsCreate chat_assistant] in
      case assistants_create rem chat_assistant of
        Inl e \<Rightarrow> (Inl e, log1)
      | Inr new_id \<Rightarrow> (Inr new_id, log1 @ [Print (''Created new assistant with ID: '' @ new_id)]))"

text \<open>
  \<open>getenv\<close> is \<^verbatim>\<open>os.getenv("ASSISTANT_ID")\<close>: \<open>None\<close> when the variable is not set.
  The first block either returns (first component \<open>Some\<close>) or leaves
  \<^verbatim>\<open>assistant_id\<close> as it was or reset to \<open>None\<close>; the second block tests it again.
\<close>

definition get_or_create_assistant ::
  "remote \<Rightarrow> string option \<Rightarrow> event list \<Rightarrow> (exn + string) \<times> event list" where
  "get_or_create_assistant rem getenv log =
     (case (case getenv of
              None \<Rightarrow> (None, None, log)
            | Some a \<Rightarrow>
                if a = [] then (None, Some a, log)
                else
                  (case assistants_retrieve rem a of
                     Inr _ \<Rightarrow> (Some a, Some a, log @ [AssistantsRetrieve a])
                   | Inl e \<Rightarrow>
                       (None, None,
                        log @ [AssistantsRetrieve a,
                               Print (''Could not find assistant with ID: '' @ a)]))) of
        (Some a, assistant_id, log1) \<Rightarrow> (Inr a, log1)
      | (None, assistant_id, log1) \<Rightarrow>
          (case assistant_id of
             None \<Rightarrow> create_assistant rem log1
           | Some a \<Rightarrow> if a = [] then create_assistant rem log1 else (Inr a, log1)))"

section \<open>Counting the remote calls in a trace\<close>

fun is_thread_creation :: "event \<Rightarrow> bool" where
  "is_thread_creation ThreadsCreate = True"
| "is_thread_creation _ = False"

fun is_assistant_creation :: "event \<Rightarrow> bool" where
  "is_assistant_creation (AssistantsCreate p) = True"
| "is_assistant_creation _ = False"

fun is_assistant_update :: "event \<Rightarrow> bool" where
  "is_assistant_update (AssistantsUpdate a fs) = True"
| "is_assistant_update _ = False"

fun is_remote_call :: "event \<Rightarrow> bool" where
  "is_remote_call (Sleep ms) = False"
| "is_remote_call (Print s) = False"
| "is_remote_call (Yield f) = False"
| "is_remote_call _ = True"

definition calls :: "(event \<Rightarrow> bool) \<Rightarrow> event list \<Rightarrow> nat" where
  "calls P log = length (filter P log)"

section \<open>A concrete remote service\<close>

text \<open>
  A service that knows the assistant \<^verbatim>\<open>asst_1\<close>, answers every call, and reports a run
  as queued on the first two polls and completed from the third.
\<close>

definition script :: remote where
  "script =
     \<lparr>assistants_retrieve =
        (\<lambda>a. if a = ''asst_1'' then Inr () else Inl (Exn ''NotFoundError'' ''No assistant found'')),
      assistants_create = (\<lambda>p. Inr ''asst_new''),
      assistants_update = (\<lambda>a fs. Inr ()),
      threads_create = Inr ''thread_1'',
      messages_create = (\<lambda>t r c. Inr ()),
      messages_list =
        (\<lambda>t. Inr [\<lparr>role = ''assistant'', content = [TextBlock ''Hello!'']\<rparr>,
                  \<lparr>role = ''user'', content = [TextBlock ''hi'']\<rparr>]),
      runs_create = (\<lambda>t a. Inr ''run_1''),
      runs_retrieve = (\<lambda>t r i. Inr (if i < 2 then ''queued'' else ''completed'')),
      files_create = (\<lambda>f p. Inr ''file_1'')\<rparr>"

text \<open>The same service with a run that is in progress at the first poll and failed at the second.\<close>

definition failing :: remote where
  "failing = script\<lparr>runs_retrieve := (\<lambda>t r i. Inr (if i < 1 then ''in_progress'' else ''failed''))\<rparr>"

text \<open>
  The same service when the latest message of the thread starts with an image, as a
  message written by the code interpreter can, and when the latest message is the
  user's own.
\<close>

definition image_first :: remote where
  "image_first =
     script\<lparr>messages_list :=
       (\<lambda>t. Inr [\<lparr>role = ''assistant'',
                   content = [ImageFileBlock ''file_7'', TextBlock ''Here is the chart.'']\<rparr>,
                  \<lparr>role = ''user'', content = [TextBlock ''plot it'']\<rparr>])\<rparr>"

definition user_last :: remote where
  "user_last =
     script\<lparr>messages_list := (\<lambda>t. Inr [\<lparr>role = ''user'', content = [TextBlock ''hi'']\<rparr>])\<rparr>"

text \<open>The same service when it cannot be reached to create a thread.\<close>

definition unreachable :: remote where
  "unreachable = script\<lparr>threads_create := Inl (Exn ''APIConnectionError'' ''Connection error.'')\<rparr>"

section \<open>The shape of a stream\<close>

text \<open>A frame whose JSON object carries the given value under \<^verbatim>\<open>thread_id\<close>.\<close>

definition thread_frame :: "json \<Rightarrow> string \<Rightarrow> bool" where
  "thread_frame thread_id f \<longleftrightarrow>
     (\<exists>kvs. f = sse_frame (JObj kvs) \<and> map_of kvs ''thread_id'' = Some thread_id)"

text \<open>
  What the loop may add to a trace: no frame at all, or one frame as the very last
  event, the generator having returned.
\<close>

definition one_frame_last :: "json \<Rightarrow> event list \<Rightarrow> ending option \<Rightarrow> bool" where
  "one_frame_last thread_id evs oe \<longleftrightarrow>
     frames evs = [] \<or>
     (oe = Some Closed \<and>
      (\<exists>pre f. evs = pre @ [Yield f] \<and> frames pre = [] \<and> thread_frame thread_id f))"

section \<open>Properties of the upload endpoint\<close>

lemma calls_append [simp]: "calls P (xs @ ys) = calls P xs + calls P ys"
  by (simp add: calls_def)

lemma calls_Nil [simp]: "calls P [] = 0"
  by (simp add: calls_def)

lemma calls_Cons [simp]: "calls P (x # xs) = (if P x then 1 else 0) + calls P xs"
  by (simp add: calls_def)

text \<open>
  C9: when the multipart form has no field named \<^verbatim>\<open>file\<close>, \<open>upload_file\<close> answers
  with status 400 and the body \<^verbatim>\<open>{"error": "No file provided"}\<close>, and the trace is
  the one it started with: no remote call is made.
\<close>

theorem upload_without_file:
  "''file'' \<notin> fst ` set request_files \<Longrightarrow>
   upload_file rem ASSISTANT_ID request_files log =
     (Json 400 (JObj [(''error'', JStr ''No file provided'')]), log) \<and>
   calls is_remote_call (snd (upload_file rem ASSISTANT_ID request_files log)) =
     calls is_remote_call log"
proof -
  assume "''file'' \<notin> fst ` set request_files"
  then have "map_of request_files ''file'' = None"
    by (simp add: map_of_eq_None_iff)
  then show ?thesis
    by (simp add: upload_file_def)
qed

theorem upload_without_file_witness:
  "''file'' \<notin> fst ` set [(''notes'', ''abc'')] \<and>
   upload_file script ''asst_1'' [(''notes'', ''abc'')] [] =
     (Json 400 (JObj [(''error'', JStr ''No file provided'')]), [])"
  using upload_without_file [of "[(''notes'', ''abc'')]" script "''asst_1''" "[]"] by simp

text \<open>
  C8: when the form has a field \<^verbatim>\<open>file\<close> and both the remote upload and the assistant
  update succeed, the response has status 200 and the body \<^verbatim>\<open>{"file_id": id}\<close> with
  the id the upload returned, and the request adds to the trace the upload and exactly
  one assistant update, which attaches that id to the provisioned assistant.
\<close>

theorem upload_with_file:
  "map_of request_files ''file'' = Some file_stream \<Longrightarrow>
   files_create rem file_stream ''assistants'' = Inr file_id \<Longrightarrow>
   assistants_update rem ASSISTANT_ID [file_id] = Inr u \<Longrightarrow>
   upload_file rem ASSISTANT_ID request_files log =
     (Json 200 (JObj [(''file_id'', JStr file_id)]),
      log @ [FilesCreate file_stream ''assistants'', AssistantsUpdate ASSISTANT_ID [file_id]]) \<and>
   calls is_assistant_update (snd (upload_file rem ASSISTANT_ID request_files log)) =
     calls is_assistant_update log + 1"
  by (simp add: upload_file_def upload_try_def)

theorem upload_with_file_witness:
  "map_of [(''file'', ''abc'')] ''file'' = Some ''abc'' \<and>
   files_create script ''abc'' ''assistants'' = Inr ''file_1'' \<and>
   assistants_update script ''asst_1'' [''file_1''] = Inr () \<and>
   upload_file script ''asst_1'' [(''file'', ''abc'')] [] =
     (Json 200 (JObj [(''file_id'', JStr ''file_1'')]),
      [FilesCreate ''abc'' ''assistants'', AssistantsUpdate ''asst_1'' [''file_1'']])"
  using upload_with_file [of "[(''file'', ''abc'')]" "''abc''" script "''file_1''" "''asst_1''" "()" "[]"]
  by (simp add: script_def)

text \<open>
  C10: every upload answered with status 200 has made one assistant update whose
  \<^verbatim>\<open>file_ids\<close> argument is the one-element list of the id just uploaded, whatever
  updates earlier uploads left in the trace: the ids of earlier uploads are not passed
  again.
\<close>

theorem upload_replaces_file_ids:
  "upload_file rem ASSISTANT_ID request_files log = (Json 200 body, log') \<Longrightarrow>
   \<exists>file_stream file_id.
     files_create rem file_stream ''assistants'' = Inr file_id \<and>
     body = JObj [(''file_id'', JStr file_id)] \<and>
     log' = log @ [FilesCreate file_stream ''assistants'',
                   AssistantsUpdate ASSISTANT_ID [file_id]] \<and>
     filter is_assistant_update log' =
       filter is_assistant_update log @ [AssistantsUpdate ASSISTANT_ID [file_id]]"
  by (auto simp: upload_file_def upload_try_def Let_def split: option.splits sum.splits prod.splits)

theorem upload_replaces_file_ids_witness:
  "upload_file script ''asst_1'' [(''file'', ''abc'')]
     [FilesCreate ''xyz'' ''assistants'', AssistantsUpdate ''asst_1'' [''file_0'']] =
     (Json 200 (JObj [(''file_id'', JStr ''file_1'')]),
      [FilesCreate ''xyz'' ''assistants'', AssistantsUpdate ''asst_1'' [''file_0''],
       FilesCreate ''abc'' ''assistants'', AssistantsUpdate ''asst_1'' [''file_1'']]) \<and>
   filter is_assistant_update
     [FilesCreate ''xyz'' ''assistants'', AssistantsUpdate ''asst_1'' [''file_0''],
      FilesCreate ''abc'' ''assistants'', AssistantsUpdate ''asst_1'' [''file_1'']] =
     [AssistantsUpdate ''asst_1'' [''file_0''], AssistantsUpdate ''asst_1'' [''file_1'']]"
proof -
  have run: "upload_file script ''asst_1'' [(''file'', ''abc'')]
     [FilesCreate ''xyz'' ''assistants'', AssistantsUpdate ''asst_1'' [''file_0'']] =
     (Json 200 (JObj [(''file_id'', JStr ''file_1'')]),
      [FilesCreate ''xyz'' ''assistants'', AssistantsUpdate ''asst_1'' [''file_0''],
       FilesCreate ''abc'' ''assistants'', AssistantsUpdate ''asst_1'' [''file_1'']])"
    by (simp add: upload_file_def upload_try_def script_def)
  from upload_replaces_file_ids [OF run] obtain file_id where
    "filter is_assistant_update
       [FilesCreate ''xyz'' ''assistants'', AssistantsUpdate ''asst_1'' [''file_0''],
        FilesCreate ''abc'' ''assistants'', AssistantsUpdate ''asst_1'' [''file_1'']] =
     filter is_assistant_update
       [FilesCreate ''xyz'' ''assistants'', AssistantsUpdate ''asst_1'' [''file_0'']] @
     [AssistantsUpdate ''asst_1'' [file_id]]"
    and "JObj [(''file_id'', JStr ''file_1'')] = JObj [(''file_id'', JStr file_id)]"
    by blast
  with run show ?thesis by simp
qed

section \<open>Properties of the provisioner\<close>

lemma create_assistant_result:
  "fst (create_assistant rem log) = assistants_create rem chat_assistant"
  by (simp add: create_assistant_def Let_def split: sum.splits)

lemma create_assistant_calls:
  "calls is_assistant_creation (snd (create_assistant rem log)) =
     calls is_assistant_creation log + 1"
  by (simp add: create_assistant_def Let_def split: sum.splits)

text \<open>
  C6: when the environment gives an assistant id (a non-empty one: an empty value is
  treated as no id and is never looked up) and retrieving it succeeds,
  \<open>get_or_create_assistant\<close> returns that id after the one retrieval and makes no
  creation call. When there is no id, or retrieving it raises, it makes exactly one
  creation call and its outcome is the outcome of that call: the id the call issued
  (or the exception the call raised).
\<close>

theorem provisioner:
  "(getenv = Some a \<longrightarrow> a \<noteq> [] \<longrightarrow> assistants_retrieve rem a = Inr u \<longrightarrow>
      get_or_create_assistant rem getenv log = (Inr a, log @ [AssistantsRetrieve a]) \<and>
      calls is_assistant_creation (snd (get_or_create_assistant rem getenv log)) =
        calls is_assistant_creation log) \<and>
   (getenv = None \<or> getenv = Some [] \<or> (\<exists>e. getenv = Some a \<and> assistants_retrieve rem a = Inl e) \<longrightarrow>
      fst (get_or_create_assistant rem getenv log) = assistants_create rem chat_assistant \<and>
      calls is_assistant_creation (snd (get_or_create_assistant rem getenv log)) =
        calls is_assistant_creation log + 1)"
proof (intro conjI impI)
  assume "getenv = Some a" "a \<noteq> []" "assistants_retrieve rem a = Inr u"
  then show "get_or_create_assistant rem getenv log = (Inr a, log @ [AssistantsRetrieve a])"
    by (simp add: get_or_create_assistant_def)
  then show "calls is_assistant_creation (snd (get_or_create_assistant rem getenv log)) =
        calls is_assistant_creation log"
    by simp
next
  assume h: "getenv = None \<or> getenv = Some [] \<or>
    (\<exists>e. getenv = Some a \<and> assistants_retrieve rem a = Inl e)"
  then have "\<exists>log1. get_or_create_assistant rem getenv log = create_assistant rem log1 \<and>
    calls is_assistant_creation log1 = calls is_assistant_creation log"
    by (cases "a = []") (auto simp: get_or_create_assistant_def)
  then obtain log1 where g: "get_or_create_assistant rem getenv log = create_assistant rem log1"
    and c: "calls is_assistant_creation log1 = calls is_assistant_creation log"
    by blast
  show "fst (get_or_create_assistant rem getenv log) = assistants_create rem chat_assistant"
    by (simp add: g create_assistant_result)
  show "calls is_assistant_creation (snd (get_or_create_assistant rem getenv log)) =
        calls is_assistant_creation log + 1"
    by (simp add: g c create_assistant_calls)
qed

theorem provisioner_witness:
  "assistants_retrieve script ''asst_1'' = Inr () \<and>
   get_or_create_assistant script (Some ''asst_1'') [] = (Inr ''asst_1'', [AssistantsRetrieve ''asst_1'']) \<and>
   (\<exists>e. assistants_retrieve script ''asst_9'' = Inl e) \<and>
   fst (get_or_create_assistant script (Some ''asst_9'') []) = Inr ''asst_new'' \<and>
   calls is_assistant_creation (snd (get_or_create_assistant script (Some ''asst_9'') [])) = 1"
  using provisioner [of "Some ''asst_1''" "''asst_1''" script "()" "[]"]
        provisioner [of "Some ''asst_9''" "''asst_9''" script "()" "[]"]
  by (simp add: script_def)

section \<open>Properties of the polling loop\<close>

lemma frames_Nil [simp]: "frames [] = []"
  by (simp add: frames_def)

lemma frames_append [simp]: "frames (xs @ ys) = frames xs @ frames ys"
  by (simp add: frames_def)

lemma frames_Cons [simp]:
  "frames (ev # evs) = (case ev of Yield f \<Rightarrow> [f] | _ \<Rightarrow> []) @ frames evs"
  by (simp add: frames_def)

lemma waits_0 [simp]: "waits t r 0 = []"
  by (simp add: waits_def)

lemma waits_Suc: "waits t r (Suc n) = [RunsRetrieve t r, Sleep 500] @ waits t r n"
  by (simp add: waits_def)

lemma frames_waits [simp]: "frames (waits t r n) = []"
  by (induction n) (simp_all add: waits_Suc)

lemma poll_once_pending:
  "pending rem t r i \<Longrightarrow> poll_once rem t r i log = (log @ [RunsRetrieve t r, Sleep 500], None)"
  by (auto simp: pending_def poll_once_def split: sum.splits)

lemma generate_upto_Some:
  "generate_upto n rem t r i log = (l, Some e) \<Longrightarrow> generate rem t r i log = Some (l, e)"
proof (induction n arbitrary: i log)
  case 0
  then show ?case by simp
next
  case (Suc n)
  show ?case
  proof (cases "poll_once rem t r i log")
    case (Pair l' oe)
    show ?thesis
    proof (cases oe)
      case None
      with Pair Suc.prems have "generate_upto n rem t r (Suc i) l' = (l, Some e)" by simp
      then have "generate rem t r (Suc i) l' = Some (l, e)" by (rule Suc.IH)
      with Pair None show ?thesis by (subst generate.simps) simp
    next
      case (Some e')
      with Pair Suc.prems show ?thesis by (subst generate.simps) simp
    qed
  qed
qed

lemma generate_Some_upto_aux:
  assumes "generate rem t r i log = Some y"
  shows "\<exists>n. generate_upto n rem t r i log = (fst y, Some (snd y))"
proof -
  let ?Q = "\<lambda>rem t r i log y. \<exists>n. generate_upto n rem t r i log = (fst y, Some (snd y))"
  have step: "?Q rem t r i log y"
    if IH: "\<And>rem t r i log y. gen rem t r i log = Some y \<Longrightarrow> ?Q rem t r i log y"
    and eq: "(case poll_once rem t r i log of
                (log', None) \<Rightarrow> gen rem t r (Suc i) log'
              | (log', Some e) \<Rightarrow> Some (log', e)) = Some y"
    for gen rem t r i log y
  proof (cases "poll_once rem t r i log")
    case (Pair l' oe)
    show ?thesis
    proof (cases oe)
      case None
      with Pair eq have "gen rem t r (Suc i) l' = Some y" by simp
      then obtain n where "generate_upto n rem t r (Suc i) l' = (fst y, Some (snd y))"
        using IH by blast
      with Pair None have "generate_upto (Suc n) rem t r i log = (fst y, Some (snd y))" by simp
      then show ?thesis by blast
    next
      case (Some e')
      with Pair eq have "generate_upto (Suc 0) rem t r i log = (fst y, Some (snd y))" by auto
      then show ?thesis by blast
    qed
  qed
  show ?thesis
    by (rule generate.raw_induct [where P = ?Q, OF step assms])
qed

lemma generate_iff_upto:
  "generate rem t r i log = Some (l, e) \<longleftrightarrow> (\<exists>n. generate_upto n rem t r i log = (l, Some e))"
  using generate_Some_upto_aux [of rem t r i log "(l, e)"] generate_upto_Some by auto

lemma generate_upto_pending:
  "(\<forall>j<n. pending rem t r (i + j)) \<Longrightarrow>
   generate_upto n rem t r i log = (log @ waits t r n, None)"
proof (induction n arbitrary: i log)
  case 0
  then show ?case by simp
next
  case (Suc n)
  from Suc.prems have p0: "pending rem t r i" by (metis add.right_neutral zero_less_Suc)
  from Suc.prems have "\<forall>j<n. pending rem t r (Suc i + j)" by auto
  then have "generate_upto n rem t r (Suc i) (log @ [RunsRetrieve t r, Sleep 500]) =
    ((log @ [RunsRetrieve t r, Sleep 500]) @ waits t r n, None)"
    by (rule Suc.IH)
  with p0 show ?case by (simp add: poll_once_pending waits_Suc)
qed

lemma generate_upto_add:
  "generate_upto n rem t r i log = (l, None) \<Longrightarrow>
   generate_upto (n + m) rem t r i log = generate_upto m rem t r (i + n) l"
proof (induction n arbitrary: i log)
  case 0
  then show ?case by simp
next
  case (Suc n)
  then show ?case
    by (cases "poll_once rem t r i log") (auto split: option.splits)
qed

text \<open>After \<open>k\<close> pending polls the loop is at poll \<open>k\<close>, with \<open>k\<close> waits in the trace.\<close>

lemma generate_after_pending:
  assumes "\<forall>j<k. pending rem t r j"
    and "poll_once rem t r k (log @ waits t r k) = (l, Some e)"
  shows "generate rem t r 0 log = Some (l, e)"
proof -
  from assms(1) have "generate_upto k rem t r 0 log = (log @ waits t r k, None)"
    using generate_upto_pending [of k rem t r 0 log] by simp
  then have "generate_upto (k + 1) rem t r 0 log = generate_upto 1 rem t r k (log @ waits t r k)"
    using generate_upto_add [of k rem t r 0 log "log @ waits t r k" 1] by simp
  with assms(2) have "generate_upto (k + 1) rem t r 0 log = (l, Some e)" by simp
  then show ?thesis by (rule generate_upto_Some)
qed

text \<open>
  C2: when the run is reported as failed (at the first poll, or after any number of
  pending polls), the generator yields exactly one frame, \<^verbatim>\<open>data: \<close> followed by
  the JSON object \<^verbatim>\<open>{"error": "Assistant run failed", "thread_id": id}\<close> and two
  newlines, and then returns: the frame is the last event of the trace.
\<close>

theorem failed_run_one_frame:
  "\<forall>j<k. pending rem thread_id run_id j \<Longrightarrow>
   runs_retrieve rem thread_id run_id k = Inr ''failed'' \<Longrightarrow>
   generate rem thread_id run_id 0 log =
     Some (log @ waits thread_id run_id k @
             [RunsRetrieve thread_id run_id,
              Yield (sse_frame (JObj [(''error'', JStr ''Assistant run failed''),
                                      (''thread_id'', thread_id)]))],
           Closed) \<and>
   frames (waits thread_id run_id k @
             [RunsRetrieve thread_id run_id,
              Yield (sse_frame (JObj [(''error'', JStr ''Assistant run failed''),
                                      (''thread_id'', thread_id)]))]) =
     [''data: '' @ json_dumps (JObj [(''error'', JStr ''Assistant run failed''),
                                     (''thread_id'', thread_id)]) @ [CHR 0x0A, CHR 0x0A]]"
proof -
  assume p: "\<forall>j<k. pending rem thread_id run_id j"
    and f: "runs_retrieve rem thread_id run_id k = Inr ''failed''"
  from f have "poll_once rem thread_id run_id k (log @ waits thread_id run_id k) =
    ((log @ waits thread_id run_id k) @
       [RunsRetrieve thread_id run_id,
        Yield (sse_frame (JObj [(''error'', JStr ''Assistant run failed''),
                                (''thread_id'', thread_id)]))], Some Closed)"
    by (simp add: poll_once_def on_failed_def)
  from generate_after_pending [OF p this] show ?thesis
    by (simp add: sse_frame_def)
qed

theorem failed_run_one_frame_witness:
  \<open>pending failing (JStr ''thread_1'') ''run_1'' 0 \<and>
   runs_retrieve failing (JStr ''thread_1'') ''run_1'' 1 = Inr ''failed'' \<and>
   generate failing (JStr ''thread_1'') ''run_1'' 0 [] =
     Some ([RunsRetrieve (JStr ''thread_1'') ''run_1'', Sleep 500,
            RunsRetrieve (JStr ''thread_1'') ''run_1'',
            Yield (''data: {"error": "Assistant run failed", "thread_id": "thread_1"}'' @
                   [CHR 0x0A, CHR 0x0A])],
           Closed)\<close>
proof -
  have p: "\<forall>j<1. pending failing (JStr ''thread_1'') ''run_1'' j"
    by (simp add: pending_def failing_def script_def)
  have f: "runs_retrieve failing (JStr ''thread_1'') ''run_1'' 1 = Inr ''failed''"
    by (simp add: failing_def script_def)
  have p0: "pending failing (JStr ''thread_1'') ''run_1'' 0"
    by (simp add: pending_def failing_def script_def)
  from failed_run_one_frame [OF p f, of "[]"] p0 f show ?thesis
    by (simp add: waits_def sse_frame_def encode_str_def escape_char_def)
qed

lemma waits_2: "waits t r 2 = [RunsRetrieve t r, Sleep 500, RunsRetrieve t r, Sleep 500]"
  by (simp add: waits_def numeral_2_eq_2)

lemma below_2: "(\<forall>j<2. P j) \<longleftrightarrow> P 0 \<and> P (1::nat)"
  by (auto simp: less_Suc_eq numeral_2_eq_2)

text \<open>
  The path the code is written for: when the first two polls are pending and the
  third reports \<^verbatim>\<open>completed\<close>, and the latest message of the thread has the role
  \<^verbatim>\<open>assistant\<close> and a text block as its first content block, the generator yields
  exactly one frame, whose \<^verbatim>\<open>content\<close> is the value of that block and whose
  \<^verbatim>\<open>thread_id\<close> is the thread's id, and returns. The frame comes after three polls,
  with a sleep of 500 ms after each of the first two.
\<close>

lemma completed_run_one_frame:
  "pending rem thread_id run_id 0 \<Longrightarrow> pending rem thread_id run_id 1 \<Longrightarrow>
   runs_retrieve rem thread_id run_id 2 = Inr ''completed'' \<Longrightarrow>
   messages_list rem thread_id = Inr (latest_message # older) \<Longrightarrow>
   role latest_message = ''assistant'' \<Longrightarrow>
   content latest_message = TextBlock v # blocks \<Longrightarrow>
   generate rem thread_id run_id 0 log =
     Some (log @
             [RunsRetrieve thread_id run_id, Sleep 500,
              RunsRetrieve thread_id run_id, Sleep 500,
              RunsRetrieve thread_id run_id, MessagesList thread_id,
              Yield (sse_frame (JObj [(''content'', JStr v), (''thread_id'', thread_id)]))],
           Closed) \<and>
   frames [RunsRetrieve thread_id run_id, Sleep 500,
           RunsRetrieve thread_id run_id, Sleep 500,
           RunsRetrieve thread_id run_id, MessagesList thread_id,
           Yield (sse_frame (JObj [(''content'', JStr v), (''thread_id'', thread_id)]))] =
     [''data: '' @ json_dumps (JObj [(''content'', JStr v), (''thread_id'', thread_id)]) @
      [CHR 0x0A, CHR 0x0A]]"
proof -
  assume p0: "pending rem thread_id run_id 0" and p1: "pending rem thread_id run_id 1"
    and c: "runs_retrieve rem thread_id run_id 2 = Inr ''completed''"
    and m: "messages_list rem thread_id = Inr (latest_message # older)"
      "role latest_message = ''assistant''" "content latest_message = TextBlock v # blocks"
  from p0 p1 have p: "\<forall>j<2. pending rem thread_id run_id j"
    by (simp add: below_2)
  from c m have "poll_once rem thread_id run_id 2 (log @ waits thread_id run_id 2) =
    ((log @ waits thread_id run_id 2) @
       [RunsRetrieve thread_id run_id, MessagesList thread_id,
        Yield (sse_frame (JObj [(''content'', JStr v), (''thread_id'', thread_id)]))],
     Some Closed)"
    by (simp add: poll_once_def on_completed_def)
  from generate_after_pending [OF p this] show ?thesis
    by (simp add: waits_2 sse_frame_def)
qed

lemma completed_run_one_frame_script:
  \<open>pending script (JStr ''thread_1'') ''run_1'' 0 \<and>
   pending script (JStr ''thread_1'') ''run_1'' 1 \<and>
   runs_retrieve script (JStr ''thread_1'') ''run_1'' 2 = Inr ''completed'' \<and>
   messages_list script (JStr ''thread_1'') =
     Inr [\<lparr>role = ''assistant'', content = [TextBlock ''Hello!'']\<rparr>,
          \<lparr>role = ''user'', content = [TextBlock ''hi'']\<rparr>] \<and>
   generate script (JStr ''thread_1'') ''run_1'' 0 [] =
     Some ([RunsRetrieve (JStr ''thread_1'') ''run_1'', Sleep 500,
            RunsRetrieve (JStr ''thread_1'') ''run_1'', Sleep 500,
            RunsRetrieve (JStr ''thread_1'') ''run_1'', MessagesList (JStr ''thread_1''),
            Yield (''data: {"content": "Hello!", "thread_id": "thread_1"}'' @
                   [CHR 0x0A, CHR 0x0A])],
           Closed)\<close>
proof -
  have p0: "pending script (JStr ''thread_1'') ''run_1'' 0"
    and p1: "pending script (JStr ''thread_1'') ''run_1'' 1"
    by (simp_all add: pending_def script_def)
  have c: "runs_retrieve script (JStr ''thread_1'') ''run_1'' 2 = Inr ''completed''"
    by (simp add: script_def)
  have m: "messages_list script (JStr ''thread_1'') =
     Inr (\<lparr>role = ''assistant'', content = [TextBlock ''Hello!'']\<rparr> #
          [\<lparr>role = ''user'', content = [TextBlock ''hi'']\<rparr>])"
    by (simp add: script_def)
  from completed_run_one_frame [OF p0 p1 c m, of "''Hello!''" "[]" "[]"] p0 p1 c m
  show ?thesis
    by (simp add: sse_frame_def encode_str_def escape_char_def)
qed

text \<open>
  The same run when the first content block of the latest message is not a text block
  (the content is empty, or starts with an image): \<^verbatim>\<open>content[0].text\<close> raises, and
  the generator ends with that exception after the message listing, without a frame.
\<close>

lemma completed_run_no_text_first:
  assumes "pending rem thread_id run_id 0" and "pending rem thread_id run_id 1"
    and "runs_retrieve rem thread_id run_id 2 = Inr ''completed''"
    and "messages_list rem thread_id = Inr (latest_message # older)"
    and "role latest_message = ''assistant''"
    and "content latest_message = [] \<or> content latest_message = ImageFileBlock x # blocks"
  shows "\<exists>e. generate rem thread_id run_id 0 log =
           Some (log @
                   [RunsRetrieve thread_id run_id, Sleep 500,
                    RunsRetrieve thread_id run_id, Sleep 500,
                    RunsRetrieve thread_id run_id, MessagesList thread_id],
                 Raised e)"
proof -
  from assms(1,2) have p: "\<forall>j<2. pending rem thread_id run_id j"
    by (simp add: below_2)
  from assms(3-6) have "\<exists>e. poll_once rem thread_id run_id 2 (log @ waits thread_id run_id 2) =
    ((log @ waits thread_id run_id 2) @
       [RunsRetrieve thread_id run_id, MessagesList thread_id], Some (Raised e))"
    by (auto simp: poll_once_def on_completed_def)
  then obtain e where "poll_once rem thread_id run_id 2 (log @ waits thread_id run_id 2) =
    ((log @ waits thread_id run_id 2) @
       [RunsRetrieve thread_id run_id, MessagesList thread_id], Some (Raised e))"
    by blast
  from generate_after_pending [OF p this] show ?thesis
    by (simp add: waits_2)
qed

text \<open>
  C1: for polls pending, pending, completed and a latest message of role
  \<^verbatim>\<open>assistant\<close>, the stream is to emit exactly one frame whose \<^verbatim>\<open>content\<close> is the
  value of the first text block of that message. Here the code is run where the latest
  message starts with an image and has its text block second: line 101 reads
  \<^verbatim>\<open>content[0].text\<close>, which raises, and the generator ends with the
  \<^verbatim>\<open>AttributeError\<close> after three polls and the message listing, without a frame.
\<close>

theorem image_first_run_raises:
  "pending image_first (JStr ''thread_1'') ''run_1'' 0 \<and>
   pending image_first (JStr ''thread_1'') ''run_1'' 1 \<and>
   runs_retrieve image_first (JStr ''thread_1'') ''run_1'' 2 = Inr ''completed'' \<and>
   messages_list image_first (JStr ''thread_1'') =
     Inr [\<lparr>role = ''assistant'',
           content = [ImageFileBlock ''file_7'', TextBlock ''Here is the chart.'']\<rparr>,
          \<lparr>role = ''user'', content = [TextBlock ''plot it'']\<rparr>] \<and>
   generate image_first (JStr ''thread_1'') ''run_1'' 0 [] =
     Some ([RunsRetrieve (JStr ''thread_1'') ''run_1'', Sleep 500,
            RunsRetrieve (JStr ''thread_1'') ''run_1'', Sleep 500,
            RunsRetrieve (JStr ''thread_1'') ''run_1'', MessagesList (JStr ''thread_1'')],
           Raised (AttributeError ''ImageFileContentBlock'' ''text'')) \<and>
   frames [RunsRetrieve (JStr ''thread_1'') ''run_1'', Sleep 500,
           RunsRetrieve (JStr ''thread_1'') ''run_1'', Sleep 500,
           RunsRetrieve (JStr ''thread_1'') ''run_1'', MessagesList (JStr ''thread_1'')] = []"
proof -
  have p: "\<forall>j<2. pending image_first (JStr ''thread_1'') ''run_1'' j"
    by (simp add: below_2 pending_def image_first_def script_def)
  have "poll_once image_first (JStr ''thread_1'') ''run_1'' 2
          ([] @ waits (JStr ''thread_1'') ''run_1'' 2) =
        (waits (JStr ''thread_1'') ''run_1'' 2 @
           [RunsRetrieve (JStr ''thread_1'') ''run_1'', MessagesList (JStr ''thread_1'')],
         Some (Raised (AttributeError ''ImageFileContentBlock'' ''text'')))"
    by (simp add: poll_once_def on_completed_def image_first_def script_def)
  from generate_after_pending [OF p this] p show ?thesis
    by (simp add: waits_2 below_2 image_first_def script_def)
qed

lemma thread_frame_content:
  "thread_frame t (sse_frame (JObj [(''content'', JStr v), (''thread_id'', t)]))"
  unfolding thread_frame_def by (rule exI [of _ "[(''content'', JStr v), (''thread_id'', t)]"]) simp

lemma thread_frame_error:
  "thread_frame t (sse_frame (JObj [(''error'', JStr ''Assistant run failed''), (''thread_id'', t)]))"
  unfolding thread_frame_def
  by (rule exI [of _ "[(''error'', JStr ''Assistant run failed''), (''thread_id'', t)]"]) simp

lemma on_completed_shape:
  "on_completed rem t log = (l, e) \<Longrightarrow> \<exists>evs. l = log @ evs \<and> one_frame_last t evs (Some e)"
  unfolding on_completed_def one_frame_last_def Let_def
  by (auto simp: thread_frame_content split: sum.splits list.splits if_splits content_block.splits)

lemma poll_once_shape:
  "poll_once rem t r i log = (l, oe) \<Longrightarrow> \<exists>evs. l = log @ evs \<and> one_frame_last t evs oe"
proof (cases "runs_retrieve rem t r i")
  case (Inl e)
  assume "poll_once rem t r i log = (l, oe)"
  with Inl show ?thesis
    by (auto simp: poll_once_def one_frame_last_def)
next
  case (Inr status)
  assume po: "poll_once rem t r i log = (l, oe)"
  consider "status = ''completed''" | "status = ''failed''"
    | "status \<noteq> ''completed''" "status \<noteq> ''failed''" by blast
  then show ?thesis
  proof cases
    case 1
    obtain l2 e where oc: "on_completed rem t (log @ [RunsRetrieve t r]) = (l2, e)"
      by (cases "on_completed rem t (log @ [RunsRetrieve t r])")
    with po Inr 1 have le: "l = l2" "oe = Some e" by (auto simp: poll_once_def)
    from on_completed_shape [OF oc] obtain evs where
      "l2 = (log @ [RunsRetrieve t r]) @ evs" and s: "one_frame_last t evs (Some e)" by blast
    then have "l = log @ (RunsRetrieve t r # evs)" using le by simp
    moreover from s have "one_frame_last t (RunsRetrieve t r # evs) oe"
      unfolding one_frame_last_def le
      by (auto intro: exI [of _ "RunsRetrieve t r # pre" for pre])
    ultimately show ?thesis by blast
  next
    case 2
    with po Inr have "l = log @ [RunsRetrieve t r] @
        [Yield (sse_frame (JObj [(''error'', JStr ''Assistant run failed''), (''thread_id'', t)]))]"
      and "oe = Some Closed"
      by (auto simp: poll_once_def on_failed_def)
    moreover have "one_frame_last t ([RunsRetrieve t r] @
        [Yield (sse_frame (JObj [(''error'', JStr ''Assistant run failed''), (''thread_id'', t)]))])
        (Some Closed)"
      unfolding one_frame_last_def by (simp add: thread_frame_error)
    ultimately show ?thesis by blast
  next
    case 3
    with po Inr show ?thesis
      by (auto simp: poll_once_def one_frame_last_def)
  qed
qed

lemma one_frame_last_None: "one_frame_last t evs None \<Longrightarrow> frames evs = []"
  by (auto simp: one_frame_last_def)

lemma one_frame_last_prepend:
  "frames evs1 = [] \<Longrightarrow> one_frame_last t evs2 oe \<Longrightarrow> one_frame_last t (evs1 @ evs2) oe"
  unfolding one_frame_last_def
  by (auto intro: exI [of _ "evs1 @ pre" for pre])

lemma generate_upto_shape:
  "generate_upto n rem t r i log = (l, oe) \<Longrightarrow> \<exists>evs. l = log @ evs \<and> one_frame_last t evs oe"
proof (induction n arbitrary: i log)
  case 0
  then show ?case by (simp add: one_frame_last_def)
next
  case (Suc n)
  obtain l1 oe1 where po: "poll_once rem t r i log = (l1, oe1)"
    by (cases "poll_once rem t r i log")
  from poll_once_shape [OF po] obtain evs1 where
    l1: "l1 = log @ evs1" and s1: "one_frame_last t evs1 oe1" by blast
  show ?case
  proof (cases oe1)
    case None
    with po Suc.prems have "generate_upto n rem t r (Suc i) l1 = (l, oe)" by simp
    from Suc.IH [OF this] obtain evs2 where
      l: "l = l1 @ evs2" and s2: "one_frame_last t evs2 oe" by blast
    from s1 None have "frames evs1 = []" by (simp add: one_frame_last_None)
    then have "one_frame_last t (evs1 @ evs2) oe" using s2 by (rule one_frame_last_prepend)
    with l l1 show ?thesis by auto
  next
    case (Some e)
    with po Suc.prems have "l = l1" "oe = oe1" by simp_all
    with l1 s1 show ?thesis by blast
  qed
qed

lemma one_frame_last_facts:
  assumes "one_frame_last t evs oe"
  shows "length (frames evs) \<le> 1"
    and "\<forall>f\<in>set (frames evs). \<exists>kvs. f = ''data: '' @ json_dumps (JObj kvs) @ [CHR 0x0A, CHR 0x0A]"
    and "frames evs \<noteq> [] \<longrightarrow> oe = Some Closed \<and> last evs = Yield (hd (frames evs))"
  using assms unfolding one_frame_last_def thread_frame_def
  by (auto simp: sse_frame_def)

text \<open>
  C3: whatever the remote service answers, and however long the loop has run, the
  trace holds at most one frame; a frame is \<^verbatim>\<open>data: \<close>, a JSON object and two
  newlines; once a frame is in the trace it is the last event and the generator has
  returned. When the status is \<^verbatim>\<open>completed\<close> and the latest message does not have
  the role \<^verbatim>\<open>assistant\<close>, the generator returns with no frame.
\<close>

theorem stream_at_most_one_frame:
  "(generate_upto n rem thread_id run_id 0 [] = (trace, oe) \<longrightarrow>
      length (frames trace) \<le> 1 \<and>
      (\<forall>f\<in>set (frames trace).
         \<exists>kvs. f = ''data: '' @ json_dumps (JObj kvs) @ [CHR 0x0A, CHR 0x0A]) \<and>
      (frames trace \<noteq> [] \<longrightarrow> oe = Some Closed \<and> last trace = Yield (hd (frames trace)))) \<and>
   ((\<forall>j<k. pending rem thread_id run_id j) \<and>
    runs_retrieve rem thread_id run_id k = Inr ''completed'' \<and>
    messages_list rem thread_id = Inr (latest_message # older) \<and>
    role latest_message \<noteq> ''assistant'' \<longrightarrow>
      generate rem thread_id run_id 0 [] =
        Some (waits thread_id run_id k @
                [RunsRetrieve thread_id run_id, MessagesList thread_id], Closed) \<and>
      frames (waits thread_id run_id k @
                [RunsRetrieve thread_id run_id, MessagesList thread_id]) = [])"
proof (intro conjI impI)
  assume "generate_upto n rem thread_id run_id 0 [] = (trace, oe)"
  from generate_upto_shape [OF this] have s: "one_frame_last thread_id trace oe" by simp
  from one_frame_last_facts [OF s]
  show "length (frames trace) \<le> 1"
    and "\<forall>f\<in>set (frames trace).
         \<exists>kvs. f = ''data: '' @ json_dumps (JObj kvs) @ [CHR 0x0A, CHR 0x0A]"
    by blast+
  assume "frames trace \<noteq> []"
  with one_frame_last_facts(3) [OF s]
  show "oe = Some Closed" and "last trace = Yield (hd (frames trace))" by blast+
next
  assume h: "(\<forall>j<k. pending rem thread_id run_id j) \<and>
    runs_retrieve rem thread_id run_id k = Inr ''completed'' \<and>
    messages_list rem thread_id = Inr (latest_message # older) \<and>
    role latest_message \<noteq> ''assistant''"
  then have p: "\<forall>j<k. pending rem thread_id run_id j" by blast
  from h have "poll_once rem thread_id run_id k ([] @ waits thread_id run_id k) =
    (waits thread_id run_id k @ [RunsRetrieve thread_id run_id, MessagesList thread_id],
     Some Closed)"
    by (simp add: poll_once_def on_completed_def)
  from generate_after_pending [OF p this]
  show "generate rem thread_id run_id 0 [] =
        Some (waits thread_id run_id k @
                [RunsRetrieve thread_id run_id, MessagesList thread_id], Closed)" .
  show "frames (waits thread_id run_id k @
                [RunsRetrieve thread_id run_id, MessagesList thread_id]) = []"
    by simp
qed


lemma script_run:
  \<open>generate_upto 3 script (JStr ''thread_1'') ''run_1'' 0 [] =
     ([RunsRetrieve (JStr ''thread_1'') ''run_1'', Sleep 500,
       RunsRetrieve (JStr ''thread_1'') ''run_1'', Sleep 500,
       RunsRetrieve (JStr ''thread_1'') ''run_1'', MessagesList (JStr ''thread_1''),
       Yield (''data: {"content": "Hello!", "thread_id": "thread_1"}'' @ [CHR 0x0A, CHR 0x0A])],
      Some Closed)\<close>
  by (simp add: eval_nat_numeral poll_once_def on_completed_def script_def
      sse_frame_def encode_str_def escape_char_def)

theorem stream_at_most_one_frame_witness:
  \<open>generate_upto 3 script (JStr ''thread_1'') ''run_1'' 0 [] =
     ([RunsRetrieve (JStr ''thread_1'') ''run_1'', Sleep 500,
       RunsRetrieve (JStr ''thread_1'') ''run_1'', Sleep 500,
       RunsRetrieve (JStr ''thread_1'') ''run_1'', MessagesList (JStr ''thread_1''),
       Yield (''data: {"content": "Hello!", "thread_id": "thread_1"}'' @ [CHR 0x0A, CHR 0x0A])],
      Some Closed) \<and>
   pending user_last (JStr ''thread_1'') ''run_1'' 0 \<and>
   pending user_last (JStr ''thread_1'') ''run_1'' 1 \<and>
   runs_retrieve user_last (JStr ''thread_1'') ''run_1'' 2 = Inr ''completed'' \<and>
   messages_list user_last (JStr ''thread_1'') =
     Inr [\<lparr>role = ''user'', content = [TextBlock ''hi'']\<rparr>] \<and>
   generate user_last (JStr ''thread_1'') ''run_1'' 0 [] =
     Some ([RunsRetrieve (JStr ''thread_1'') ''run_1'', Sleep 500,
            RunsRetrieve (JStr ''thread_1'') ''run_1'', Sleep 500,
            RunsRetrieve (JStr ''thread_1'') ''run_1'', MessagesList (JStr ''thread_1'')],
           Closed)\<close>
proof -
  have p: "\<forall>j<2. pending user_last (JStr ''thread_1'') ''run_1'' j"
    by (simp add: pending_def user_last_def script_def)
  have c: "runs_retrieve user_last (JStr ''thread_1'') ''run_1'' 2 = Inr ''completed''"
    by (simp add: user_last_def script_def)
  have m: "messages_list user_last (JStr ''thread_1'') =
     Inr (\<lparr>role = ''user'', content = [TextBlock ''hi'']\<rparr> # [])"
    by (simp add: user_last_def script_def)
  have r: "role \<lparr>role = ''user'', content = [TextBlock ''hi'']\<rparr> \<noteq> ''assistant''"
    by simp
  from stream_at_most_one_frame
         [of 0 user_last "JStr ''thread_1''" "''run_1''" "[]" None 2
             "\<lparr>role = ''user'', content = [TextBlock ''hi'']\<rparr>" "[]"]
       p c m r
  have "generate user_last (JStr ''thread_1'') ''run_1'' 0 [] =
        Some (waits (JStr ''thread_1'') ''run_1'' 2 @
                [RunsRetrieve (JStr ''thread_1'') ''run_1'', MessagesList (JStr ''thread_1'')],
              Closed)"
    by blast
  moreover from p have "pending user_last (JStr ''thread_1'') ''run_1'' 0"
    and "pending user_last (JStr ''thread_1'') ''run_1'' 1"
    by (simp_all add: below_2)
  ultimately show ?thesis using script_run c m
    by (simp add: waits_def numeral_2_eq_2)
qed

lemma status_poll_once:
  "sts i \<noteq> ''completed'' \<Longrightarrow> sts i \<noteq> ''failed'' \<Longrightarrow>
   pending (rem\<lparr>runs_retrieve := \<lambda>t r i. Inr (sts i)\<rparr>) t r i"
  by (simp add: pending_def)

lemma poll_once_terminal:
  "runs_retrieve rem t r i = Inr s \<Longrightarrow> s = ''completed'' \<or> s = ''failed'' \<Longrightarrow>
   \<exists>l e. poll_once rem t r i log = (l, Some e)"
  by (cases "on_completed rem t (log @ [RunsRetrieve t r])")
     (auto simp: poll_once_def on_failed_def)

text \<open>
  C4: for a sequence of statuses \<open>sts\<close> (every poll answers), the loop is left if and
  only if some status is \<^verbatim>\<open>completed\<close> or \<^verbatim>\<open>failed\<close>. When none is, the
  generator never returns, and after any number \<open>n\<close> of iterations the trace is
  \<open>n\<close> polls and sleeps, without a frame, and the loop is still running.
\<close>

theorem loop_terminates_iff:
  "(generate (rem\<lparr>runs_retrieve := \<lambda>t r i. Inr (sts i)\<rparr>) thread_id run_id 0 log \<noteq> None \<longleftrightarrow>
      (\<exists>k. sts k = ''completed'' \<or> sts k = ''failed'')) \<and>
   ((\<forall>k. sts k \<noteq> ''completed'' \<and> sts k \<noteq> ''failed'') \<longrightarrow>
      generate (rem\<lparr>runs_retrieve := \<lambda>t r i. Inr (sts i)\<rparr>) thread_id run_id 0 log = None \<and>
      (\<forall>n. generate_upto n (rem\<lparr>runs_retrieve := \<lambda>t r i. Inr (sts i)\<rparr>) thread_id run_id 0 log =
             (log @ waits thread_id run_id n, None) \<and>
           frames (waits thread_id run_id n) = []))"
proof -
  let ?rem = "rem\<lparr>runs_retrieve := \<lambda>t r i. Inr (sts i)\<rparr>"
  let ?T = "\<lambda>k. sts k = ''completed'' \<or> sts k = ''failed''"
  have forever: "generate_upto n ?rem thread_id run_id 0 log = (log @ waits thread_id run_id n, None)"
    if "\<forall>k. \<not> ?T k" for n
  proof -
    from that have "\<forall>j<n. pending ?rem thread_id run_id (0 + j)"
      by (simp add: pending_def)
    then show ?thesis by (rule generate_upto_pending)
  qed
  have never: "generate ?rem thread_id run_id 0 log = None" if nt: "\<forall>k. \<not> ?T k"
  proof (rule ccontr)
    assume "generate ?rem thread_id run_id 0 log \<noteq> None"
    then obtain l e where "generate ?rem thread_id run_id 0 log = Some (l, e)" by auto
    then obtain n where "generate_upto n ?rem thread_id run_id 0 log = (l, Some e)"
      using generate_iff_upto by blast
    with forever [OF nt, of n] show False by simp
  qed
  have ends: "generate ?rem thread_id run_id 0 log \<noteq> None" if "\<exists>k. ?T k"
  proof -
    define k where "k = (LEAST k. ?T k)"
    from that have Tk: "?T k" unfolding k_def by (rule LeastI_ex)
    have "\<not> ?T j" if "j < k" for j
      using that not_less_Least unfolding k_def by blast
    then have p: "\<forall>j<k. pending ?rem thread_id run_id j"
      by (simp add: pending_def)
    have "runs_retrieve ?rem thread_id run_id k = Inr (sts k)" by simp
    from poll_once_terminal [OF this Tk] obtain l e where
      "poll_once ?rem thread_id run_id k (log @ waits thread_id run_id k) = (l, Some e)" by blast
    from generate_after_pending [OF p this] show ?thesis by simp
  qed
  from never ends forever show ?thesis by (intro conjI impI allI iffI) (auto simp del: not_None_eq)
qed

theorem loop_terminates_iff_witness:
  "''queued'' \<noteq> ''completed'' \<and> ''queued'' \<noteq> ''failed'' \<and>
   generate (script\<lparr>runs_retrieve := \<lambda>t r i. Inr ''queued''\<rparr>) (JStr ''thread_1'') ''run_1'' 0 [] = None \<and>
   generate_upto 2 (script\<lparr>runs_retrieve := \<lambda>t r i. Inr ''queued''\<rparr>) (JStr ''thread_1'') ''run_1'' 0 [] =
     ([RunsRetrieve (JStr ''thread_1'') ''run_1'', Sleep 500,
       RunsRetrieve (JStr ''thread_1'') ''run_1'', Sleep 500], None)"
  using loop_terminates_iff [where rem = script and sts = "\<lambda>i. ''queued''"
      and thread_id = "JStr ''thread_1''" and run_id = "''run_1''" and log = "[]"]
  by (simp add: waits_def numeral_2_eq_2)

section \<open>Properties of the chat endpoint\<close>

lemma ensure_thread_falsy:
  "\<not> truthy tid0 \<Longrightarrow>
   ensure_thread rem tid0 log =
     (case threads_create rem of Inl e \<Rightarrow> Inl e | Inr new_id \<Rightarrow> Inr (JStr new_id),
      log @ [ThreadsCreate])"
  by (simp add: ensure_thread_def split: sum.splits)

lemma ensure_thread_truthy: "truthy tid0 \<Longrightarrow> ensure_thread rem tid0 log = (Inr tid0, log)"
  by (simp add: ensure_thread_def)

lemma chat_try_stream:
  "chat_try rem aid message tid0 log = (Inr (EventStream tid rid), log3) \<Longrightarrow>
   \<exists>log1. ensure_thread rem tid0 log = (Inr tid, log1) \<and>
          log3 = log1 @ [MessagesCreate tid ''user'' message, RunsCreate tid aid]"
  by (auto simp: chat_try_def Let_def split: prod.splits sum.splits)

lemma chat_stream:
  "chat rem aid (Inr data) log = (Inr (EventStream tid rid), log3) \<Longrightarrow>
   py_get data ''thread_id'' JNull = Inr tid0 \<Longrightarrow>
   \<exists>log1. ensure_thread rem tid0 log = (Inr tid, log1) \<and> calls is_thread_creation log3 = calls is_thread_creation log1 \<and> frames log3 = frames log1"
  by (auto simp: chat_def split: prod.splits sum.splits dest!: chat_try_stream)

lemma one_frame_last_thread:
  "one_frame_last t evs oe \<Longrightarrow> \<forall>f\<in>set (frames evs). thread_frame t f"
  by (auto simp: one_frame_last_def)

text \<open>
  C5, as amended: let \<open>chat\<close> return its stream. When the body has no
  \<^verbatim>\<open>thread_id\<close>, or one that Python takes as false (\<^verbatim>\<open>null\<close>, the empty string,
  0, \<^verbatim>\<open>false\<close>, an empty list or object), exactly one thread-creation call is made and
  the stream works on the id that call returned. When the body has a
  \<^verbatim>\<open>thread_id\<close> that Python takes as true, no thread-creation call is made and the
  stream works on the supplied value unchanged. In both cases every frame the stream
  emits, however long it runs, carries that value in its \<^verbatim>\<open>thread_id\<close> field.
\<close>

theorem chat_thread_id:
  "chat rem ASSISTANT_ID (Inr data) [] = (Inr (EventStream thread_id run_id), log1) \<Longrightarrow>
   py_get data ''thread_id'' JNull = Inr supplied \<Longrightarrow>
   (\<not> truthy supplied \<longrightarrow>
      (\<exists>new_id. threads_create rem = Inr new_id \<and> thread_id = JStr new_id) \<and>
      calls is_thread_creation log1 = 1) \<and>
   (truthy supplied \<longrightarrow> thread_id = supplied \<and> calls is_thread_creation log1 = 0) \<and>
   (generate_upto n rem thread_id run_id 0 log1 = (trace, oe) \<longrightarrow>
      (\<forall>f\<in>set (frames trace). thread_frame thread_id f))"
proof -
  assume c: "chat rem ASSISTANT_ID (Inr data) [] = (Inr (EventStream thread_id run_id), log1)"
    and s: "py_get data ''thread_id'' JNull = Inr supplied"
  from chat_stream [OF c s] obtain log0 where
    e: "ensure_thread rem supplied [] = (Inr thread_id, log0)"
    and n: "calls is_thread_creation log1 = calls is_thread_creation log0"
    and f: "frames log1 = frames log0"
    by blast
  have falsy: "(\<exists>new_id. threads_create rem = Inr new_id \<and> thread_id = JStr new_id) \<and>
      calls is_thread_creation log1 = 1" if "\<not> truthy supplied"
    using e n ensure_thread_falsy [OF that, of rem "[]"]
    by (auto split: sum.splits)
  have truthy: "thread_id = supplied \<and> calls is_thread_creation log1 = 0" if "truthy supplied"
    using e n ensure_thread_truthy [OF that, of rem "[]"] by simp
  have nof: "frames log1 = []"
    using e f by (auto simp: ensure_thread_def split: if_splits sum.splits)
  have stream: "\<forall>f\<in>set (frames trace). thread_frame thread_id f"
    if "generate_upto n rem thread_id run_id 0 log1 = (trace, oe)"
  proof -
    from generate_upto_shape [OF that] obtain evs where
      "trace = log1 @ evs" and "one_frame_last thread_id evs oe" by blast
    with nof one_frame_last_thread show ?thesis by simp
  qed
  from falsy truthy stream show ?thesis by blast
qed

lemma chat_script_no_thread:
  "chat script ''asst_1'' (Inr (JObj [(''message'', JStr ''hi'')])) [] =
     (Inr (EventStream (JStr ''thread_1'') ''run_1''),
      [ThreadsCreate, MessagesCreate (JStr ''thread_1'') ''user'' (JStr ''hi''),
       RunsCreate (JStr ''thread_1'') ''asst_1''])"
  by (simp add: chat_def chat_try_def ensure_thread_def script_def)

lemma chat_script_thread:
  "chat script ''asst_1'' (Inr (JObj [(''message'', JStr ''hi''), (''thread_id'', JStr ''thread_7'')])) [] =
     (Inr (EventStream (JStr ''thread_7'') ''run_1''),
      [MessagesCreate (JStr ''thread_7'') ''user'' (JStr ''hi''),
       RunsCreate (JStr ''thread_7'') ''asst_1''])"
  by (simp add: chat_def chat_try_def ensure_thread_def script_def)

theorem chat_thread_id_witness:
  "chat script ''asst_1'' (Inr (JObj [(''message'', JStr ''hi'')])) [] =
     (Inr (EventStream (JStr ''thread_1'') ''run_1''),
      [ThreadsCreate, MessagesCreate (JStr ''thread_1'') ''user'' (JStr ''hi''),
       RunsCreate (JStr ''thread_1'') ''asst_1'']) \<and>
   py_get (JObj [(''message'', JStr ''hi'')]) ''thread_id'' JNull = Inr JNull \<and>
   \<not> truthy JNull \<and>
   threads_create script = Inr ''thread_1'' \<and>
   calls is_thread_creation
     [ThreadsCreate, MessagesCreate (JStr ''thread_1'') ''user'' (JStr ''hi''),
      RunsCreate (JStr ''thread_1'') ''asst_1''] = 1 \<and>
   chat script ''asst_1''
     (Inr (JObj [(''message'', JStr ''hi''), (''thread_id'', JStr ''thread_7'')])) [] =
     (Inr (EventStream (JStr ''thread_7'') ''run_1''),
      [MessagesCreate (JStr ''thread_7'') ''user'' (JStr ''hi''),
       RunsCreate (JStr ''thread_7'') ''asst_1'']) \<and>
   py_get (JObj [(''message'', JStr ''hi''), (''thread_id'', JStr ''thread_7'')]) ''thread_id'' JNull =
     Inr (JStr ''thread_7'') \<and>
   truthy (JStr ''thread_7'') \<and>
   calls is_thread_creation
     [MessagesCreate (JStr ''thread_7'') ''user'' (JStr ''hi''),
      RunsCreate (JStr ''thread_7'') ''asst_1''] = 0 \<and>
   generate_upto 3 script (JStr ''thread_1'') ''run_1'' 0
     [ThreadsCreate, MessagesCreate (JStr ''thread_1'') ''user'' (JStr ''hi''),
      RunsCreate (JStr ''thread_1'') ''asst_1''] =
     ([ThreadsCreate, MessagesCreate (JStr ''thread_1'') ''user'' (JStr ''hi''),
       RunsCreate (JStr ''thread_1'') ''asst_1'',
       RunsRetrieve (JStr ''thread_1'') ''run_1'', Sleep 500,
       RunsRetrieve (JStr ''thread_1'') ''run_1'', Sleep 500,
       RunsRetrieve (JStr ''thread_1'') ''run_1'', MessagesList (JStr ''thread_1''),
       Yield (sse_frame (JObj [(''content'', JStr ''Hello!''),
                               (''thread_id'', JStr ''thread_1'')]))],
      Some Closed) \<and>
   thread_frame (JStr ''thread_1'')
     (sse_frame (JObj [(''content'', JStr ''Hello!''), (''thread_id'', JStr ''thread_1'')]))"
proof -
  have run: "generate_upto 3 script (JStr ''thread_1'') ''run_1'' 0
     [ThreadsCreate, MessagesCreate (JStr ''thread_1'') ''user'' (JStr ''hi''),
      RunsCreate (JStr ''thread_1'') ''asst_1''] =
     ([ThreadsCreate, MessagesCreate (JStr ''thread_1'') ''user'' (JStr ''hi''),
       RunsCreate (JStr ''thread_1'') ''asst_1'',
       RunsRetrieve (JStr ''thread_1'') ''run_1'', Sleep 500,
       RunsRetrieve (JStr ''thread_1'') ''run_1'', Sleep 500,
       RunsRetrieve (JStr ''thread_1'') ''run_1'', MessagesList (JStr ''thread_1''),
       Yield (sse_frame (JObj [(''content'', JStr ''Hello!''),
                               (''thread_id'', JStr ''thread_1'')]))],
      Some Closed)"
    by (simp add: eval_nat_numeral poll_once_def on_completed_def script_def)
  have g1: "py_get (JObj [(''message'', JStr ''hi'')]) ''thread_id'' JNull = Inr JNull"
    by simp
  have g2: "py_get (JObj [(''message'', JStr ''hi''), (''thread_id'', JStr ''thread_7'')])
              ''thread_id'' JNull = Inr (JStr ''thread_7'')"
    by simp
  from chat_thread_id [OF chat_script_no_thread g1, of 3 _ "Some Closed"] run
  have fr: "thread_frame (JStr ''thread_1'')
     (sse_frame (JObj [(''content'', JStr ''Hello!''), (''thread_id'', JStr ''thread_1'')]))"
    by simp
  from chat_thread_id [OF chat_script_no_thread g1] chat_thread_id [OF chat_script_thread g2]
    chat_script_no_thread chat_script_thread g1 g2 run fr
  show ?thesis by (simp add: script_def)
qed

text \<open>
  C5 as stated fails for a supplied \<^verbatim>\<open>thread_id\<close> that is the empty string:
  \<^verbatim>\<open>not thread_id\<close> holds, a thread is created, and the stream works on the new id,
  not on the supplied value.
\<close>

theorem empty_thread_id_counterexample:
  "map_of [(''message'', JStr ''hi''), (''thread_id'', JStr [])] ''thread_id'' = Some (JStr []) \<and>
   chat script ''asst_1'' (Inr (JObj [(''message'', JStr ''hi''), (''thread_id'', JStr [])])) [] =
     (Inr (EventStream (JStr ''thread_1'') ''run_1''),
      [ThreadsCreate, MessagesCreate (JStr ''thread_1'') ''user'' (JStr ''hi''),
       RunsCreate (JStr ''thread_1'') ''asst_1''])"
  by (simp add: chat_def chat_try_def ensure_thread_def script_def)

text \<open>
  C7, as amended: when the request body is a JSON object, an exception raised by the
  thread-creation, the message-creation or the run-creation call is caught: \<open>chat\<close>
  returns the dict \<^verbatim>\<open>{"error": str(e)}\<close> with status 500, after the calls made so
  far, and no exception leaves \<open>chat\<close>. What is raised while the body is read is not
  caught: an exception of \<^verbatim>\<open>request.json\<close>, and the \<^verbatim>\<open>AttributeError\<close> of
  \<^verbatim>\<open>data.get\<close> for a body that is not a JSON object, leave \<open>chat\<close> before any
  remote call.
\<close>

theorem chat_setup_errors:
  "(py_get data ''message'' (JStr []) = Inr message \<and>
    py_get data ''thread_id'' JNull = Inr supplied \<longrightarrow>
      (\<not> truthy supplied \<and> threads_create rem = Inl e \<longrightarrow>
         chat rem ASSISTANT_ID (Inr data) log =
           (Inr (Json 500 (JObj [(''error'', JStr (exn_str e))])), log @ [ThreadsCreate])) \<and>
      (ensure_thread rem supplied log = (Inr thread_id, log1) \<and>
       messages_create rem thread_id ''user'' message = Inl e \<longrightarrow>
         chat rem ASSISTANT_ID (Inr data) log =
           (Inr (Json 500 (JObj [(''error'', JStr (exn_str e))])),
            log1 @ [MessagesCreate thread_id ''user'' message])) \<and>
      (ensure_thread rem supplied log = (Inr thread_id, log1) \<and>
       messages_create rem thread_id ''user'' message = Inr u \<and>
       runs_create rem thread_id ASSISTANT_ID = Inl e \<longrightarrow>
         chat rem ASSISTANT_ID (Inr data) log =
           (Inr (Json 500 (JObj [(''error'', JStr (exn_str e))])),
            log1 @ [MessagesCreate thread_id ''user'' message,
                    RunsCreate thread_id ASSISTANT_ID])) \<and>
      (\<forall>ex. fst (chat rem ASSISTANT_ID (Inr data) log) \<noteq> Inl ex)) \<and>
   chat rem ASSISTANT_ID (Inl parse_error) log = (Inl parse_error, log) \<and>
   ((\<forall>kvs. data \<noteq> JObj kvs) \<longrightarrow>
      chat rem ASSISTANT_ID (Inr data) log = (Inl (AttributeError (type_name data) ''get''), log))"
proof (intro conjI)
  show "py_get data ''message'' (JStr []) = Inr message \<and>
    py_get data ''thread_id'' JNull = Inr supplied \<longrightarrow>
      (\<not> truthy supplied \<and> threads_create rem = Inl e \<longrightarrow>
         chat rem ASSISTANT_ID (Inr data) log =
           (Inr (Json 500 (JObj [(''error'', JStr (exn_str e))])), log @ [ThreadsCreate])) \<and>
      (ensure_thread rem supplied log = (Inr thread_id, log1) \<and>
       messages_create rem thread_id ''user'' message = Inl e \<longrightarrow>
         chat rem ASSISTANT_ID (Inr data) log =
           (Inr (Json 500 (JObj [(''error'', JStr (exn_str e))])),
            log1 @ [MessagesCreate thread_id ''user'' message])) \<and>
      (ensure_thread rem supplied log = (Inr thread_id, log1) \<and>
       messages_create rem thread_id ''user'' message = Inr u \<and>
       runs_create rem thread_id ASSISTANT_ID = Inl e \<longrightarrow>
         chat rem ASSISTANT_ID (Inr data) log =
           (Inr (Json 500 (JObj [(''error'', JStr (exn_str e))])),
            log1 @ [MessagesCreate thread_id ''user'' message,
                    RunsCreate thread_id ASSISTANT_ID])) \<and>
      (\<forall>ex. fst (chat rem ASSISTANT_ID (Inr data) log) \<noteq> Inl ex)"
    by (auto simp: chat_def chat_try_def ensure_thread_falsy Let_def
        split: prod.splits sum.splits)
  show "chat rem ASSISTANT_ID (Inl parse_error) log = (Inl parse_error, log)"
    by (simp add: chat_def)
  show "(\<forall>kvs. data \<noteq> JObj kvs) \<longrightarrow>
      chat rem ASSISTANT_ID (Inr data) log = (Inl (AttributeError (type_name data) ''get''), log)"
    by (cases data) (simp_all add: chat_def)
qed

theorem chat_setup_errors_witness:
  "py_get (JObj [(''message'', JStr ''hi'')]) ''message'' (JStr []) = Inr (JStr ''hi'') \<and>
   py_get (JObj [(''message'', JStr ''hi'')]) ''thread_id'' JNull = Inr JNull \<and>
   \<not> truthy JNull \<and>
   threads_create unreachable = Inl (Exn ''APIConnectionError'' ''Connection error.'') \<and>
   chat unreachable ''asst_1'' (Inr (JObj [(''message'', JStr ''hi'')])) [] =
     (Inr (Json 500 (JObj [(''error'', JStr ''Connection error.'')])), [ThreadsCreate]) \<and>
   chat unreachable ''asst_1'' (Inl (Exn ''UnsupportedMediaType'' ''415 Unsupported Media Type'')) [] =
     (Inl (Exn ''UnsupportedMediaType'' ''415 Unsupported Media Type''), []) \<and>
   chat unreachable ''asst_1'' (Inr (JStr ''hi'')) [] = (Inl (AttributeError ''str'' ''get''), [])"
proof -
  have g1: "py_get (JObj [(''message'', JStr ''hi'')]) ''message'' (JStr []) = Inr (JStr ''hi'')"
    and g2: "py_get (JObj [(''message'', JStr ''hi'')]) ''thread_id'' JNull = Inr JNull"
    by simp_all
  have t: "threads_create unreachable = Inl (Exn ''APIConnectionError'' ''Connection error.'')"
    by (simp add: unreachable_def script_def)
  from chat_setup_errors [where data = "JObj [(''message'', JStr ''hi'')]"
      and message = "JStr ''hi''" and supplied = JNull and rem = unreachable
      and e = "Exn ''APIConnectionError'' ''Connection error.''"
      and ASSISTANT_ID = "''asst_1''" and log = "[]"
      and parse_error = "Exn ''UnsupportedMediaType'' ''415 Unsupported Media Type''"]
    chat_setup_errors [where data = "JStr ''hi''" and rem = unreachable
      and ASSISTANT_ID = "''asst_1''" and log = "[]"]
    g1 g2 t
  show ?thesis by simp
qed

text \<open>
  C7 as stated fails for what is raised while the body is read: those statements
  stand before \<^verbatim>\<open>try:\<close>. A body that is a JSON array has no \<^verbatim>\<open>get\<close>, and an
  exception raised by \<^verbatim>\<open>request.json\<close> itself is not caught either; both leave
  \<open>chat\<close> instead of becoming the 500 response with a JSON body.
\<close>

theorem body_not_object_counterexample:
  "chat script ''asst_1'' (Inr (JArr [JStr ''hi''])) [] = (Inl (AttributeError ''list'' ''get''), []) \<and>
   chat script ''asst_1'' (Inl (Exn ''BadRequest'' ''400 Bad Request'')) [] =
     (Inl (Exn ''BadRequest'' ''400 Bad Request''), [])"
  by (simp add: chat_def)

end
